theory Spec2Isabelle
  imports Main "HOL-Library.Word"
begin

unbundle bit_operations_syntax

section \<open>The object model of debug/elf, as far as elfutils.go reads it\<close>

type_synonym byte = "8 word"

text \<open>
  \<^verbatim>\<open>elf.SectionType\<close> is a \<^verbatim>\<open>uint32\<close>; the three values that elfutils.go compares with.
\<close>

type_synonym SectionType = "32 word"

definition SHT_PROGBITS :: SectionType where "SHT_PROGBITS = 1"
definition SHT_SYMTAB :: SectionType where "SHT_SYMTAB = 2"
definition SHT_DYNSYM :: SectionType where "SHT_DYNSYM = 11"

text \<open>
  \<^verbatim>\<open>elf.Section\<close> and \<^verbatim>\<open>elf.Symbol\<close>: the fields the package reads. A Go string is a
  byte sequence, here a \<^typ>\<open>string\<close>.
\<close>

record Section =
  Name :: string
  Type :: SectionType

record Symbol =
  sym_Name :: string

text \<open>
  \<^verbatim>\<open>elf.File\<close>: the section list in file order, and the value that \<^verbatim>\<open>f.Symbols()\<close>
  returns, which the standard library computes from the symbol table of the file: the
  symbols, or an error (\<^verbatim>\<open>elf.ErrNoSymbols\<close> when there is no \<^verbatim>\<open>SHT_SYMTAB\<close> section,
  another error when the table cannot be read or decoded).
\<close>

datatype symbols_error = ErrNoSymbols | SymbolsError string

record File =
  Sections :: "Section list"
  Symbols :: "symbols_error + Symbol list"

text \<open>
  The errors of the package, one constructor for each place that makes or passes on an
  error, with the values that its message prints. \<^verbatim>\<open>elf.Open\<close> fails with an error of the
  standard library, carried as its message. An \<^verbatim>\<open>io_error\<close> is what a read returns.
\<close>

datatype io_error = EOF | ErrUnexpectedEOF | ReaderError string

datatype error =
    FailedToOpenElf string
  | FailedToReadDWARFSections error
  | FailedToReadSymbols symbols_error
  | NoGopclntab
  | OpenFailure string
  | NoSectionsInFile
  | ReadError io_error
  | InvalidMagic "byte list"
  | UnknownClass byte
  | UnknownData byte
  | UnknownVersion byte
  | InvalidVersion byte
  | ShoffZero int
  | ShstrndxOutOfBounds int int
  | NoSections

text \<open>
  The file system is outside the package: each function below takes the result of
  \<^verbatim>\<open>elf.Open(path)\<close>, the error message or the opened file.
\<close>

type_synonym opened = "string + File"

section \<open>dwarfSuffix and HasDWARF\<close>

text \<open>\<^verbatim>\<open>strings.HasPrefix(s, prefix)\<close>: \<^verbatim>\<open>len(s) >= len(prefix) && s[:len(prefix)] == prefix\<close>.\<close>

definition HasPrefix :: "string \<Rightarrow> string \<Rightarrow> bool" where
  "HasPrefix s p = (length p \<le> length s \<and> take (length p) s = p)"

definition dwarfSuffix :: "Section \<Rightarrow> string" where
  "dwarfSuffix s =
     (if HasPrefix (Name s) ''.debug_'' then drop 7 (Name s)
      else if HasPrefix (Name s) ''.zdebug_'' then drop 8 (Name s)
      else if HasPrefix (Name s) ''__debug_'' then drop 8 (Name s)
      else '''')"

text \<open>The keys of the map literal \<^verbatim>\<open>sections\<close> in \<^verbatim>\<open>readableDWARFSections\<close>.\<close>

definition dwarf_sections :: "string set" where
  "dwarf_sections = {''abbrev'', ''info'', ''str'', ''line'', ''ranges''}"

text \<open>
  The loop of \<^verbatim>\<open>readableDWARFSections\<close> over \<^verbatim>\<open>f.Sections\<close>; the accumulator is the
  key set of the map \<^verbatim>\<open>exists\<close>, whose values are all \<^verbatim>\<open>struct{}{}\<close>.
\<close>

fun readable_loop :: "Section list \<Rightarrow> string set \<Rightarrow> string set" where
  "readable_loop [] exists = exists"
| "readable_loop (s # ss) exists =
     (let suffix = dwarfSuffix s in
      if suffix = '''' then readable_loop ss exists
      else if suffix \<notin> dwarf_sections then readable_loop ss exists
      else if Type s = SHT_PROGBITS then readable_loop ss (insert suffix exists)
      else readable_loop ss exists)"

text \<open>\<^verbatim>\<open>readableDWARFSections\<close> returns the map and an error that is always nil.\<close>

definition readableDWARFSections :: "File \<Rightarrow> error + string set" where
  "readableDWARFSections f = Inr (readable_loop (Sections f) {})"

definition HasDWARF :: "opened \<Rightarrow> error + bool" where
  "HasDWARF opn =
     (case opn of
        Inl err \<Rightarrow> Inl (FailedToOpenElf err)
      | Inr f \<Rightarrow>
          (case readableDWARFSections f of
             Inl err \<Rightarrow> Inl (FailedToReadDWARFSections err)
           | Inr sections \<Rightarrow> Inr (card sections > 0)))"

section \<open>IsSymbolizableGoObjFile, IsGoObjFile, HasSymbols, ValidateFile\<close>

text \<open>The first loop of \<^verbatim>\<open>IsSymbolizableGoObjFile\<close>: it sets \<^verbatim>\<open>isGo\<close> and never clears it.\<close>

fun buildid_loop :: "Section list \<Rightarrow> bool \<Rightarrow> bool" where
  "buildid_loop [] isGo = isGo"
| "buildid_loop (s # ss) isGo =
     (if Name s = ''.note.go.buildid'' then buildid_loop ss True else buildid_loop ss isGo)"

text \<open>The loop over the symbols, with its two \<^verbatim>\<open>if\<close> statements in order.\<close>

fun symbol_loop :: "Symbol list \<Rightarrow> bool \<Rightarrow> bool" where
  "symbol_loop [] isGo = isGo"
| "symbol_loop (sy # syms) isGo =
     (let name = sym_Name sy;
          isGo1 = (if name = ''runtime.main'' \<or> name = ''main.main'' then True else isGo);
          isGo2 = (if name = ''runtime.buildVersion'' then True else isGo1)
      in symbol_loop syms isGo2)"

text \<open>\<^verbatim>\<open>(*elf.File).Section(name)\<close>: the first section of that name, or nil.\<close>

fun File_Section :: "Section list \<Rightarrow> string \<Rightarrow> Section option" where
  "File_Section [] name = None"
| "File_Section (s # ss) name = (if Name s = name then Some s else File_Section ss name)"

definition gopclntab_check :: "File \<Rightarrow> error + bool" where
  "gopclntab_check f =
     (case File_Section (Sections f) ''.gopclntab'' of
        Some sec \<Rightarrow> if Type sec = SHT_PROGBITS then Inr True else Inl NoGopclntab
      | None \<Rightarrow> Inl NoGopclntab)"

definition IsSymbolizableGoObjFile :: "opened \<Rightarrow> error + bool" where
  "IsSymbolizableGoObjFile opn =
     (case opn of
        Inl err \<Rightarrow> Inl (FailedToOpenElf err)
      | Inr f \<Rightarrow>
          (let isGo = buildid_loop (Sections f) False in
           if \<not> isGo then
             (case Symbols f of
                Inl err \<Rightarrow> Inl (FailedToReadSymbols err)
              | Inr syms \<Rightarrow>
                  (let isGo' = symbol_loop syms isGo in
                   if \<not> isGo' then Inr False else gopclntab_check f))
           else gopclntab_check f))"

fun IsGoObjFile_loop :: "Section list \<Rightarrow> bool" where
  "IsGoObjFile_loop [] = False"
| "IsGoObjFile_loop (s # ss) =
     (if Name s = ''.note.go.buildid'' then True else IsGoObjFile_loop ss)"

definition IsGoObjFile :: "opened \<Rightarrow> error + bool" where
  "IsGoObjFile opn =
     (case opn of
        Inl err \<Rightarrow> Inl (FailedToOpenElf err)
      | Inr f \<Rightarrow> Inr (IsGoObjFile_loop (Sections f)))"

fun HasSymbols_loop :: "Section list \<Rightarrow> bool" where
  "HasSymbols_loop [] = False"
| "HasSymbols_loop (sec # ss) =
     (if Type sec = SHT_SYMTAB \<or> Type sec = SHT_DYNSYM then True
      else HasSymbols_loop ss)"

definition HasSymbols :: "opened \<Rightarrow> error + bool" where
  "HasSymbols opn =
     (case opn of
        Inl err \<Rightarrow> Inl (FailedToOpenElf err)
      | Inr ef \<Rightarrow> Inr (HasSymbols_loop (Sections ef)))"

text \<open>\<^verbatim>\<open>ValidateFile\<close> returns only an error: \<^const>\<open>None\<close> is Go's nil.\<close>

definition ValidateFile :: "opened \<Rightarrow> error option" where
  "ValidateFile opn =
     (case opn of
        Inl err \<Rightarrow> Some (OpenFailure err)
      | Inr elfFile \<Rightarrow>
          if length (Sections elfFile) = 0 then Some NoSectionsInFile else None)"

section \<open>ValidateHeader\<close>

text \<open>
  An \<^verbatim>\<open>io.Reader\<close>, as what its successive \<^verbatim>\<open>Read\<close> calls deliver up to the end of the
  stream or its first error; what a reader would deliver after an error is never read,
  since \<^verbatim>\<open>io.ReadAll\<close> stops there.
  \<^item> \<^verbatim>\<open>content\<close>: the bytes delivered;
  \<^item> \<^verbatim>\<open>failure\<close>: \<^const>\<open>None\<close> when the reader ends with \<^verbatim>\<open>io.EOF\<close>, the message of the
    error when it ends with another error;
  \<^item> \<^verbatim>\<open>same_call\<close>: whether the \<^verbatim>\<open>Read\<close> call that returns the last byte returns the
    error too, or a later call returns it with no bytes. The contract of \<^verbatim>\<open>io.Reader\<close>
    allows both.
\<close>

record Reader =
  content :: "byte list"
  failure :: "string option"
  same_call :: bool

text \<open>
  \<^verbatim>\<open>io.LimitReader(r, n)\<close>. \<^verbatim>\<open>LimitedReader.Read\<close> returns \<^verbatim>\<open>io.EOF\<close> without calling
  \<^verbatim>\<open>r\<close> once \<^verbatim>\<open>n\<close> bytes are read; before that it asks \<^verbatim>\<open>r\<close> for no more than the bytes
  left and passes on what \<^verbatim>\<open>r\<close> returns, bytes and error. So the error of \<^verbatim>\<open>r\<close> comes
  through when \<^verbatim>\<open>r\<close> ends before \<^verbatim>\<open>n\<close> bytes, and also when its last byte is the
  \<^verbatim>\<open>n\<close>-th and comes with the error in the same call; it is lost when \<^verbatim>\<open>r\<close> has more
  than \<^verbatim>\<open>n\<close> bytes, or exactly \<^verbatim>\<open>n\<close> and the error would come from a later call.
\<close>

definition LimitReader :: "Reader \<Rightarrow> nat \<Rightarrow> Reader" where
  "LimitReader r n =
     \<lparr>content = take n (content r),
      failure =
        (if length (content r) < n then failure r
         else if length (content r) = n \<and> 0 < n \<and> same_call r then failure r
         else None),
      same_call = same_call r\<rparr>"

text \<open>\<^verbatim>\<open>io.ReadAll\<close> reads until \<^verbatim>\<open>io.EOF\<close>, which it does not report, or an error.\<close>

definition ReadAll :: "Reader \<Rightarrow> io_error + byte list" where
  "ReadAll r = (case failure r of None \<Rightarrow> Inr (content r) | Some msg \<Rightarrow> Inl (ReaderError msg))"

text \<open>
  \<^verbatim>\<open>limitio.Writer.Write\<close> with \<^verbatim>\<open>regardOverSizeNormal = true\<close> on a \<^verbatim>\<open>bytes.Buffer\<close>: it
  appends what still fits under the limit, drops the rest and reports no error. The
  argument \<^verbatim>\<open>buf\<close> is what the buffer holds, the result what it holds afterwards.
\<close>

definition Writer_Write :: "nat \<Rightarrow> byte list \<Rightarrow> byte list \<Rightarrow> byte list" where
  "Writer_Write limit buf p = buf @ take (limit - length buf) p"

text \<open>
  \<^verbatim>\<open>bytes.Buffer.Read(p)\<close> on a buffer holding \<^verbatim>\<open>buf\<close>: \<^verbatim>\<open>io.EOF\<close> when the buffer is empty
  and \<^verbatim>\<open>p\<close> is not; otherwise it copies \<^verbatim>\<open>min(len(p), len(buf))\<close> bytes over the start of
  \<^verbatim>\<open>p\<close> and returns no error, whatever the count. The result is \<^verbatim>\<open>p\<close> after the call.
\<close>

definition Buffer_Read :: "byte list \<Rightarrow> byte list \<Rightarrow> io_error + byte list" where
  "Buffer_Read buf p =
     (if buf = [] then (if p = [] then Inr p else Inl EOF)
      else Inr (take (length p) buf @ drop (length buf) p))"

text \<open>
  \<^verbatim>\<open>io.ReadFull\<close> for \<^verbatim>\<open>n\<close> bytes from a \<^verbatim>\<open>bytes.Reader\<close> over \<^verbatim>\<open>b\<close>, which is how
  \<^verbatim>\<open>binary.Read\<close> fetches the bytes of a fixed-size struct.
\<close>

definition ReadFull :: "byte list \<Rightarrow> nat \<Rightarrow> io_error + byte list" where
  "ReadFull b n =
     (if n \<le> length b then Inr (take n b)
      else if b = [] then Inl EOF
      else Inl ErrUnexpectedEOF)"

text \<open>\<^verbatim>\<open>binary.LittleEndian\<close> and \<^verbatim>\<open>binary.BigEndian\<close> decoding of an unsigned integer.\<close>

datatype ByteOrder = LittleEndian | BigEndian

fun le_word :: "byte list \<Rightarrow> 'a::len word" where
  "le_word [] = 0"
| "le_word (x # xs) = ucast x OR push_bit 8 (le_word xs)"

definition decode_uint :: "ByteOrder \<Rightarrow> byte list \<Rightarrow> 'a::len word" where
  "decode_uint byteOrder bs =
     (case byteOrder of LittleEndian \<Rightarrow> le_word bs | BigEndian \<Rightarrow> le_word (rev bs))"

definition slice :: "byte list \<Rightarrow> nat \<Rightarrow> nat \<Rightarrow> byte list" where
  "slice b i j = take (j - i) (drop i b)"

definition ELFCLASS32 :: byte where "ELFCLASS32 = 1"
definition ELFCLASS64 :: byte where "ELFCLASS64 = 2"
definition ELFDATA2LSB :: byte where "ELFDATA2LSB = 1"
definition ELFDATA2MSB :: byte where "ELFDATA2MSB = 2"
definition EV_CURRENT :: byte where "EV_CURRENT = 1"

text \<open>
  The fields of \<^verbatim>\<open>elf.Header32\<close> and \<^verbatim>\<open>elf.Header64\<close> that ValidateHeader reads after
  \<^verbatim>\<open>binary.Read\<close> has filled the struct. In the 52-byte layout Version is at offset 20,
  Shoff (4 bytes) at 32, Shnum at 48, Shstrndx at 50; in the 64-byte layout Version is at
  20, Shoff (8 bytes) at 40, Shnum at 60, Shstrndx at 62.
\<close>

record Header32 =
  h32_Version :: "32 word"
  h32_Shoff :: "32 word"
  h32_Shnum :: "16 word"
  h32_Shstrndx :: "16 word"

record Header64 =
  h64_Version :: "32 word"
  h64_Shoff :: "64 word"
  h64_Shnum :: "16 word"
  h64_Shstrndx :: "16 word"

definition decode_Header32 :: "ByteOrder \<Rightarrow> byte list \<Rightarrow> Header32" where
  "decode_Header32 byteOrder bs =
     \<lparr>h32_Version = decode_uint byteOrder (slice bs 20 24),
      h32_Shoff = decode_uint byteOrder (slice bs 32 36),
      h32_Shnum = decode_uint byteOrder (slice bs 48 50),
      h32_Shstrndx = decode_uint byteOrder (slice bs 50 52)\<rparr>"

definition decode_Header64 :: "ByteOrder \<Rightarrow> byte list \<Rightarrow> Header64" where
  "decode_Header64 byteOrder bs =
     \<lparr>h64_Version = decode_uint byteOrder (slice bs 20 24),
      h64_Shoff = decode_uint byteOrder (slice bs 40 48),
      h64_Shnum = decode_uint byteOrder (slice bs 60 62),
      h64_Shstrndx = decode_uint byteOrder (slice bs 62 64)\<rparr>"

text \<open>
  The switch on the class that reads the file header from \<^verbatim>\<open>bytes.NewReader(b)\<close>. It
  yields \<^verbatim>\<open>shoff\<close> (an \<^verbatim>\<open>int64\<close>), \<^verbatim>\<open>shnum\<close> and \<^verbatim>\<open>shstrndx\<close> (\<^verbatim>\<open>int\<close>s converted from
  \<^verbatim>\<open>uint16\<close>). A class that is neither case leaves the three at zero. \<^verbatim>\<open>elf.Version\<close> is
  a byte: the conversion \<^verbatim>\<open>elf.Version(hdr.Version)\<close> keeps the low 8 bits of the 32-bit
  field, and those are compared with \<^verbatim>\<open>fv\<close>.
\<close>

definition read_header ::
  "byte \<Rightarrow> ByteOrder \<Rightarrow> byte \<Rightarrow> byte list \<Rightarrow> error + (int \<times> int \<times> int)" where
  "read_header c byteOrder fv b =
     (if c = ELFCLASS32 then
        (case ReadFull (take 52 b) 52 of
           Inl err \<Rightarrow> Inl (ReadError err)
         | Inr bs \<Rightarrow>
             (let hdr = decode_Header32 byteOrder bs;
                  v = (ucast (h32_Version hdr) :: byte)
              in
              if v \<noteq> fv then Inl (InvalidVersion v)
              else Inr (uint (h32_Shoff hdr), uint (h32_Shnum hdr), uint (h32_Shstrndx hdr))))
      else if c = ELFCLASS64 then
        (case ReadFull b 64 of
           Inl err \<Rightarrow> Inl (ReadError err)
         | Inr bs \<Rightarrow>
             (let hdr = decode_Header64 byteOrder bs;
                  v = (ucast (h64_Version hdr) :: byte)
              in
              if v \<noteq> fv then Inl (InvalidVersion v)
              else Inr (sint (h64_Shoff hdr), uint (h64_Shnum hdr), uint (h64_Shstrndx hdr))))
      else Inr (0, 0, 0))"

text \<open>The three checks that end ValidateHeader.\<close>

definition check_sections :: "int \<Rightarrow> int \<Rightarrow> int \<Rightarrow> error option" where
  "check_sections shoff shnum shstrndx =
     (if shoff = 0 \<and> shnum \<noteq> 0 then Some (ShoffZero shnum)
      else if shnum > 0 \<and> shstrndx \<ge> shnum then Some (ShstrndxOutOfBounds shstrndx shnum)
      else if shnum \<le> 0 then Some NoSections
      else None)"

text \<open>
  The checks on the 16 identification bytes, then the header. \<^verbatim>\<open>ident\<close> is the array
  after \<^verbatim>\<open>buf.Read(ident[:])\<close>, \<^verbatim>\<open>b\<close> the bytes that \<^verbatim>\<open>io.ReadAll\<close> returned.
\<close>

definition check_ident :: "byte list \<Rightarrow> byte list \<Rightarrow> error option" where
  "check_ident ident b =
     (if ident ! 0 \<noteq> 0x7f \<or> ident ! 1 \<noteq> 0x45 \<or> ident ! 2 \<noteq> 0x4c \<or> ident ! 3 \<noteq> 0x46
      then Some (InvalidMagic (slice ident 0 4))
      else
        (let c = ident ! 4 in
         if c \<noteq> ELFCLASS32 \<and> c \<noteq> ELFCLASS64 then Some (UnknownClass c)
         else
           (let d = ident ! 5 in
            if d \<noteq> ELFDATA2LSB \<and> d \<noteq> ELFDATA2MSB then Some (UnknownData d)
            else
              (let byteOrder = (if d = ELFDATA2LSB then LittleEndian else BigEndian);
                   fv = ident ! 6
               in
               if fv \<noteq> EV_CURRENT then Some (UnknownVersion fv)
               else
                 (case read_header c byteOrder fv b of
                    Inl err \<Rightarrow> Some err
                  | Inr (shoff, shnum, shstrndx) \<Rightarrow> check_sections shoff shnum shstrndx)))))"

text \<open>
  ValidateHeader: \<^verbatim>\<open>io.ReadAll\<close> of the reader limited to 64 bytes, teed into a writer
  that keeps the first 16 bytes in \<^verbatim>\<open>buf\<close>; then \<^verbatim>\<open>buf.Read\<close> into the zeroed array
  \<^verbatim>\<open>ident\<close>. \<^const>\<open>None\<close> is Go's nil.
\<close>

definition ValidateHeader :: "Reader \<Rightarrow> error option" where
  "ValidateHeader r =
     (case ReadAll (LimitReader r 64) of
        Inl err \<Rightarrow> Some (ReadError err)
      | Inr b \<Rightarrow>
          (let buf = Writer_Write 16 [] b in
           case Buffer_Read buf (replicate 16 0) of
             Inl err \<Rightarrow> Some (ReadError err)
           | Inr ident \<Rightarrow> check_ident ident b))"

text \<open>The errors that a read returned, as opposed to those that a check made.\<close>

fun is_read_error :: "error \<Rightarrow> bool" where
  "is_read_error (ReadError e) = True"
| "is_read_error e = False"

text \<open>
  The message of \<^verbatim>\<open>fmt.Errorf("invalid magic number, %s", ident[0:4])\<close>: the verb
  \<^verbatim>\<open>%s\<close> prints a byte slice as the string of those bytes.
\<close>

definition magic_message :: "byte list \<Rightarrow> string" where
  "magic_message bs = ''invalid magic number, '' @ map (\<lambda>x. char_of (unat x)) bs"

section \<open>Notions of the specification\<close>

text \<open>
  A section counts for HasDWARF when \<^const>\<open>dwarfSuffix\<close> gives a non-empty suffix that is a
  key of the map \<^verbatim>\<open>sections\<close>: the two tests of the loop before the one on the type.
\<close>

definition recognized :: "Section \<Rightarrow> bool" where
  "recognized s = (dwarfSuffix s \<noteq> '''' \<and> dwarfSuffix s \<in> dwarf_sections)"

text \<open>The two marks of a file made by the Go toolchain.\<close>

definition has_buildid_note :: "File \<Rightarrow> bool" where
  "has_buildid_note f = (\<exists>s\<in>set (Sections f). Name s = ''.note.go.buildid'')"

definition has_go_symbol :: "Symbol list \<Rightarrow> bool" where
  "has_go_symbol syms =
     (\<exists>y\<in>set syms. sym_Name y \<in> {''runtime.main'', ''main.main'', ''runtime.buildVersion''})"

text \<open>
  What the specification calls a valid identification header: the magic, a recognized
  class, a recognized data encoding and the current version, at the indices 0 to 6.
\<close>

definition ident_ok :: "byte list \<Rightarrow> bool" where
  "ident_ok bs =
     (bs ! 0 = 0x7f \<and> bs ! 1 = 0x45 \<and> bs ! 2 = 0x4c \<and> bs ! 3 = 0x46
      \<and> bs ! 4 \<in> {ELFCLASS32, ELFCLASS64} \<and> bs ! 5 \<in> {ELFDATA2LSB, ELFDATA2MSB}
      \<and> bs ! 6 = 1)"

text \<open>
  The format errors of the specification's taxonomy: a field holds a value that is not
  recognized, or the two version fields differ.
\<close>

fun is_format_error :: "error \<Rightarrow> bool" where
  "is_format_error (InvalidMagic m) = True"
| "is_format_error (UnknownClass c) = True"
| "is_format_error (UnknownData d) = True"
| "is_format_error (UnknownVersion v) = True"
| "is_format_error (InvalidVersion v) = True"
| "is_format_error e = False"

text \<open>
  The read error, if any, that a stream reports before its \<^verbatim>\<open>n\<close>-th byte or together
  with it.
\<close>

definition failure_upto :: "Reader \<Rightarrow> nat \<Rightarrow> string option" where
  "failure_upto r n =
     (if length (content r) < n \<or> (length (content r) = n \<and> content r \<noteq> [] \<and> same_call r)
      then failure r else None)"

text \<open>The array \<^verbatim>\<open>ident\<close> after the read: the first 16 bytes, then zeros.\<close>

definition pad_ident :: "byte list \<Rightarrow> byte list" where
  "pad_ident b = take 16 b @ replicate (16 - length b) 0"

text \<open>
  A 64-byte header of class \<^verbatim>\<open>ELFCLASS64\<close> in little-endian order, with Version 1, Shoff
  256, Shnum 3 and the given low byte of Shstrndx.
\<close>

definition hdr64_example :: "byte \<Rightarrow> byte list" where
  "hdr64_example strndx =
     [0x7f, 0x45, 0x4c, 0x46, 2, 1, 1, 0, 0, 0, 0, 0, 0, 0, 0, 0,
      2, 0, 0x3e, 0, 1, 0, 0, 0,
      0, 0, 0, 0, 0, 0, 0, 0,
      0x40, 0, 0, 0, 0, 0, 0, 0,
      0, 1, 0, 0, 0, 0, 0, 0,
      0, 0, 0, 0, 0x40, 0, 0x38, 0, 0, 0, 0x40, 0,
      3, 0, strndx, 0]"

section \<open>Lemmas about the loops\<close>

lemma HasPrefix_drop: "HasPrefix s p \<Longrightarrow> length p = n \<Longrightarrow> s = p @ drop n s"
  unfolding HasPrefix_def by (metis append_take_drop_id)

lemma dwarfSuffix_debug: "Name s = ''.debug_'' @ k \<Longrightarrow> dwarfSuffix s = k"
  by (simp add: dwarfSuffix_def HasPrefix_def)

lemma dwarfSuffix_zdebug: "Name s = ''.zdebug_'' @ k \<Longrightarrow> dwarfSuffix s = k"
  by (simp add: dwarfSuffix_def HasPrefix_def)

lemma dwarfSuffix_macos: "Name s = ''__debug_'' @ k \<Longrightarrow> dwarfSuffix s = k"
  by (simp add: dwarfSuffix_def HasPrefix_def)

lemma dwarfSuffix_nonempty:
  assumes "dwarfSuffix s \<noteq> ''''"
  shows "Name s = ''.debug_'' @ dwarfSuffix s \<or> Name s = ''.zdebug_'' @ dwarfSuffix s
         \<or> Name s = ''__debug_'' @ dwarfSuffix s"
proof (cases "HasPrefix (Name s) ''.debug_''")
  case True
  then have e: "dwarfSuffix s = drop 7 (Name s)" by (simp add: dwarfSuffix_def)
  have "Name s = ''.debug_'' @ drop 7 (Name s)" by (rule HasPrefix_drop [OF True]) simp
  then show ?thesis unfolding e by (rule disjI1)
next
  case n1: False
  show ?thesis
  proof (cases "HasPrefix (Name s) ''.zdebug_''")
    case True
    with n1 have e: "dwarfSuffix s = drop 8 (Name s)" by (simp add: dwarfSuffix_def)
    have "Name s = ''.zdebug_'' @ drop 8 (Name s)" by (rule HasPrefix_drop [OF True]) simp
    then show ?thesis unfolding e by (intro disjI2 disjI1)
  next
    case n2: False
    show ?thesis
    proof (cases "HasPrefix (Name s) ''__debug_''")
      case True
      with n1 n2 have e: "dwarfSuffix s = drop 8 (Name s)" by (simp add: dwarfSuffix_def)
      have "Name s = ''__debug_'' @ drop 8 (Name s)" by (rule HasPrefix_drop [OF True]) simp
      then show ?thesis unfolding e by (intro disjI2)
    next
      case False
      with n1 n2 assms show ?thesis by (simp add: dwarfSuffix_def)
    qed
  qed
qed

lemma recognized_iff:
  "recognized s =
   (\<exists>p\<in>{''.debug_'', ''.zdebug_'', ''__debug_''}.
      \<exists>k\<in>{''abbrev'', ''info'', ''str'', ''line'', ''ranges''}. Name s = p @ k)"
proof
  assume r: "recognized s"
  then have ne: "dwarfSuffix s \<noteq> ''''" and k: "dwarfSuffix s \<in> {''abbrev'', ''info'', ''str'', ''line'', ''ranges''}"
    by (simp_all add: recognized_def dwarf_sections_def)
  from dwarfSuffix_nonempty [OF ne] k show "\<exists>p\<in>{''.debug_'', ''.zdebug_'', ''__debug_''}.
      \<exists>k\<in>{''abbrev'', ''info'', ''str'', ''line'', ''ranges''}. Name s = p @ k"
    by blast
next
  assume "\<exists>p\<in>{''.debug_'', ''.zdebug_'', ''__debug_''}.
      \<exists>k\<in>{''abbrev'', ''info'', ''str'', ''line'', ''ranges''}. Name s = p @ k"
  then obtain p k where p: "p \<in> {''.debug_'', ''.zdebug_'', ''__debug_''}"
    and k: "k \<in> {''abbrev'', ''info'', ''str'', ''line'', ''ranges''}" and n: "Name s = p @ k"
    by blast
  from p n have "dwarfSuffix s = k"
    using dwarfSuffix_debug dwarfSuffix_zdebug dwarfSuffix_macos by blast
  with k show "recognized s" by (auto simp: recognized_def dwarf_sections_def)
qed

lemma readable_loop_eq:
  "readable_loop ss acc =
   acc \<union> {dwarfSuffix s | s. s \<in> set ss \<and> recognized s \<and> Type s = SHT_PROGBITS}"
proof (induction ss arbitrary: acc)
  case Nil
  show ?case by simp
next
  case (Cons a ss)
  show ?case unfolding readable_loop.simps Let_def Cons.IH
    by (auto simp: recognized_def)
qed

lemma finite_readable_loop: "finite acc \<Longrightarrow> finite (readable_loop ss acc)"
  by (induction ss arbitrary: acc) (simp_all add: Let_def)

lemma buildid_loop_iff:
  "buildid_loop ss isGo = (isGo \<or> (\<exists>s\<in>set ss. Name s = ''.note.go.buildid''))"
  by (induction ss arbitrary: isGo) auto

lemma symbol_loop_iff: "symbol_loop syms isGo = (isGo \<or> has_go_symbol syms)"
  by (induction syms arbitrary: isGo) (auto simp: has_go_symbol_def Let_def)

lemma File_Section_find: "File_Section ss name = find (\<lambda>s. Name s = name) ss"
  by (induction ss) auto

lemma IsGoObjFile_loop_iff:
  "IsGoObjFile_loop ss = (\<exists>s\<in>set ss. Name s = ''.note.go.buildid'')"
  by (induction ss) auto

lemma HasSymbols_loop_iff:
  "HasSymbols_loop ss = (\<exists>s\<in>set ss. Type s = SHT_SYMTAB \<or> Type s = SHT_DYNSYM)"
  by (induction ss) auto

text \<open>
  \<^verbatim>\<open>io.ReadAll\<close> reads in chunks, and the tee writes each chunk; however the bytes are
  cut into chunks, the buffer ends up with the first \<^verbatim>\<open>limit\<close> bytes, which is why
  ValidateHeader above writes them in one call.
\<close>

lemma Writer_Write_chunks:
  "fold (\<lambda>p buf. Writer_Write limit buf p) chunks buf =
   buf @ take (limit - length buf) (concat chunks)"
proof (induction chunks arbitrary: buf)
  case Nil
  show ?case by simp
next
  case (Cons p chunks)
  have "fold (\<lambda>p buf. Writer_Write limit buf p) (p # chunks) buf =
      fold (\<lambda>p buf. Writer_Write limit buf p) chunks (Writer_Write limit buf p)"
    by simp
  also have "\<dots> = Writer_Write limit buf p @
      take (limit - length (Writer_Write limit buf p)) (concat chunks)"
    by (rule Cons.IH)
  also have "\<dots> = buf @ take (limit - length buf) (concat (p # chunks))"
    by (auto simp: Writer_Write_def min_def)
  finally show ?case .
qed

text \<open>A 52-byte big-endian header of class \<^verbatim>\<open>ELFCLASS32\<close> with 5 sections passes.\<close>

lemma hdr32_example:
  "ValidateHeader
     \<lparr>content = [0x7f, 0x45, 0x4c, 0x46, 1, 2, 1, 0, 0, 0, 0, 0, 0, 0, 0, 0,
                 0, 2, 0, 8, 0, 0, 0, 1,
                 0, 0x40, 0, 0, 0, 0, 0, 0x34,
                 0, 0, 0x10, 0, 0, 0, 0, 0,
                 0, 0x34, 0, 0x20, 0, 1, 0, 0x28,
                 0, 5, 0, 4],
       failure = None, same_call = False\<rparr> = None"
  by (simp add: ValidateHeader_def ReadAll_def LimitReader_def Writer_Write_def Buffer_Read_def
      check_ident_def read_header_def ReadFull_def decode_Header32_def decode_uint_def slice_def
      check_sections_def ELFCLASS32_def ELFCLASS64_def ELFDATA2LSB_def ELFDATA2MSB_def
      EV_CURRENT_def)

text \<open>
  Only the low byte of the header's Version field is compared: a 64-byte little-endian
  header whose Version is \<^verbatim>\<open>0x01000001\<close> passes, and one whose Version is \<^verbatim>\<open>0x0102\<close> gets the
  error that prints the byte 2.
\<close>

lemma version_low_byte_example:
  "ValidateHeader
     \<lparr>content = [0x7f, 0x45, 0x4c, 0x46, 2, 1, 1, 0, 0, 0, 0, 0, 0, 0, 0, 0,
                 2, 0, 0x3e, 0, 1, 0, 0, 1,
                 0, 0, 0, 0, 0, 0, 0, 0,
                 0x40, 0, 0, 0, 0, 0, 0, 0,
                 0, 1, 0, 0, 0, 0, 0, 0,
                 0, 0, 0, 0, 0x40, 0, 0x38, 0, 0, 0, 0x40, 0,
                 3, 0, 2, 0],
       failure = None, same_call = False\<rparr> = None
   \<and> ValidateHeader
     \<lparr>content = [0x7f, 0x45, 0x4c, 0x46, 2, 1, 1, 0, 0, 0, 0, 0, 0, 0, 0, 0,
                 2, 0, 0x3e, 0, 2, 1, 0, 0,
                 0, 0, 0, 0, 0, 0, 0, 0,
                 0x40, 0, 0, 0, 0, 0, 0, 0,
                 0, 1, 0, 0, 0, 0, 0, 0,
                 0, 0, 0, 0, 0x40, 0, 0x38, 0, 0, 0, 0x40, 0,
                 3, 0, 2, 0],
       failure = None, same_call = False\<rparr> = Some (InvalidVersion 2)"
  by code_simp

text \<open>
  A reader that returns its 64th and last byte together with an error makes
  \<^verbatim>\<open>io.ReadAll\<close> return that error; when the error would come from a later call it is
  never seen.
\<close>

lemma same_call_example:
  "ValidateHeader \<lparr>content = hdr64_example 2, failure = Some ''reset'', same_call = True\<rparr> =
     Some (ReadError (ReaderError ''reset''))
   \<and> ValidateHeader \<lparr>content = hdr64_example 2, failure = Some ''reset'', same_call = False\<rparr> =
     None"
  by code_simp

lemma content_LimitReader: "content (LimitReader r n) = take n (content r)"
  by (simp add: LimitReader_def)

lemma failure_LimitReader: "failure (LimitReader r n) = failure_upto r n"
  by (auto simp: LimitReader_def failure_upto_def)

lemma ValidateHeader_unfold:
  "ValidateHeader r =
     (if failure_upto r 64 \<noteq> None
      then Some (ReadError (ReaderError (the (failure_upto r 64))))
      else if content r = [] then Some (ReadError EOF)
      else check_ident (pad_ident (take 64 (content r))) (take 64 (content r)))"
proof -
  show ?thesis
    unfolding ValidateHeader_def ReadAll_def failure_LimitReader content_LimitReader
    by (auto simp: Writer_Write_def Buffer_Read_def pad_ident_def min_def split: option.splits)
qed

lemma failure_upto_short: "length (content r) < n \<Longrightarrow> failure_upto r n = failure r"
  by (simp add: failure_upto_def)

lemma ident_of_long: "16 \<le> length b \<Longrightarrow> pad_ident (take 64 b) = take 16 b"
  by (simp add: pad_ident_def min_def)

lemma ident_of_long': "16 \<le> length b \<Longrightarrow> pad_ident b = take 16 b"
  by (simp add: pad_ident_def)

lemma check_ident_ok:
  assumes "16 \<le> length ident" "ident_ok ident"
  shows "check_ident ident b =
     (case read_header (ident ! 4) (if ident ! 5 = ELFDATA2LSB then LittleEndian else BigEndian) 1 b of
        Inl err \<Rightarrow> Some err
      | Inr (shoff, shnum, shstrndx) \<Rightarrow> check_sections shoff shnum shstrndx)"
  using assms(2) unfolding check_ident_def ident_ok_def Let_def
  by (auto simp: EV_CURRENT_def)


lemma pad_ident_ok:
  "length c < 16 \<Longrightarrow> ident_ok (pad_ident c) = (7 \<le> length c \<and> ident_ok c)"
  by (auto simp: ident_ok_def pad_ident_def nth_append ELFCLASS32_def ELFCLASS64_def
      ELFDATA2LSB_def ELFDATA2MSB_def)

lemma check_ident_bad:
  assumes "\<not> ident_ok ident"
  shows "\<exists>e. check_ident ident b = Some e \<and> is_format_error e \<and> \<not> is_read_error e"
  using assms unfolding check_ident_def ident_ok_def Let_def
  by (auto simp: EV_CURRENT_def)

lemma take_4_nth:
  assumes "4 \<le> length xs"
  shows "take 4 xs = [xs ! 0, xs ! 1, xs ! 2, xs ! 3]"
proof -
  from assms obtain a ys where 1: "xs = a # ys" "3 \<le> length ys" by (cases xs) auto
  then obtain b zs where 2: "ys = b # zs" "2 \<le> length zs" by (cases ys) auto
  then obtain c us where 3: "zs = c # us" "1 \<le> length us" by (cases zs) auto
  then obtain d vs where 4: "us = d # vs" by (cases us) auto
  show ?thesis by (simp add: 1 2 3 4)
qed


lemma magic_message_example:
  "magic_message [0x41, 0x42, 0x43, 0x44] = ''invalid magic number, ABCD''"
  by code_simp

lemma decode_uint_example:
  "decode_uint LittleEndian [0x34, 0x12] = (0x1234 :: 16 word)
   \<and> decode_uint BigEndian [0x34, 0x12] = (0x3412 :: 16 word)"
  by (simp add: decode_uint_def)

section \<open>The detectors\<close>

text \<open>
  Claim C1. For a file that opens, HasDWARF returns true exactly when some section has a
  name that is one of the prefixes \<^verbatim>\<open>.debug_\<close>, \<^verbatim>\<open>.zdebug_\<close>, \<^verbatim>\<open>__debug_\<close> followed by one of
  \<^verbatim>\<open>abbrev\<close>, \<^verbatim>\<open>info\<close>, \<^verbatim>\<open>str\<close>, \<^verbatim>\<open>line\<close>, \<^verbatim>\<open>ranges\<close>, and has the type
  \<^verbatim>\<open>SHT_PROGBITS\<close>; otherwise it returns false, and in neither case an error.
\<close>

theorem HasDWARF_iff:
  "HasDWARF (Inr f) =
   Inr (\<exists>s\<in>set (Sections f).
          (\<exists>p\<in>{''.debug_'', ''.zdebug_'', ''__debug_''}.
             \<exists>k\<in>{''abbrev'', ''info'', ''str'', ''line'', ''ranges''}. Name s = p @ k)
          \<and> Type s = SHT_PROGBITS)"
proof -
  have fin: "finite (readable_loop (Sections f) {})"
    by (rule finite_readable_loop) simp
  have "(card (readable_loop (Sections f) {}) > 0) = (readable_loop (Sections f) {} \<noteq> {})"
    using fin by (simp add: card_gt_0_iff)
  also have "\<dots> = (\<exists>s\<in>set (Sections f). recognized s \<and> Type s = SHT_PROGBITS)"
    unfolding readable_loop_eq by blast
  finally show ?thesis
    by (simp add: HasDWARF_def readableDWARFSections_def recognized_iff)
qed

theorem HasDWARF_iff_witness:
  "HasDWARF (Inr \<lparr>Sections = [\<lparr>Name = ''.symtab'', Type = SHT_SYMTAB\<rparr>,
                               \<lparr>Name = ''.debug_info'', Type = SHT_PROGBITS\<rparr>],
                   Symbols = Inr []\<rparr>) = Inr True
   \<and> HasDWARF (Inr \<lparr>Sections = [\<lparr>Name = ''.debug_info'', Type = 8\<rparr>,
                               \<lparr>Name = ''.debug_loc'', Type = SHT_PROGBITS\<rparr>],
                   Symbols = Inr []\<rparr>) = Inr False"
  using HasDWARF_iff [of "\<lparr>Sections = [\<lparr>Name = ''.symtab'', Type = SHT_SYMTAB\<rparr>,
                               \<lparr>Name = ''.debug_info'', Type = SHT_PROGBITS\<rparr>],
                   Symbols = Inr []\<rparr>"]
    HasDWARF_iff [of "\<lparr>Sections = [\<lparr>Name = ''.debug_info'', Type = 8\<rparr>,
                               \<lparr>Name = ''.debug_loc'', Type = SHT_PROGBITS\<rparr>],
                   Symbols = Inr []\<rparr>"]
  by (simp add: SHT_PROGBITS_def)

text \<open>
  Claim C5. For a file that opens, IsGoObjFile returns true exactly when some section is
  named \<^verbatim>\<open>.note.go.buildid\<close>; it returns no error, and replacing what \<^verbatim>\<open>f.Symbols()\<close>
  would return changes nothing.
\<close>

theorem IsGoObjFile_iff:
  "IsGoObjFile (Inr f) = Inr (\<exists>s\<in>set (Sections f). Name s = ''.note.go.buildid'')
   \<and> IsGoObjFile (Inr (f\<lparr>Symbols := syms\<rparr>)) = IsGoObjFile (Inr f)"
  by (simp add: IsGoObjFile_def IsGoObjFile_loop_iff)

theorem IsGoObjFile_iff_witness:
  "IsGoObjFile (Inr \<lparr>Sections = [\<lparr>Name = ''.text'', Type = SHT_PROGBITS\<rparr>,
                                  \<lparr>Name = ''.note.go.buildid'', Type = 7\<rparr>],
                      Symbols = Inl ErrNoSymbols\<rparr>) = Inr True
   \<and> IsGoObjFile (Inr \<lparr>Sections = [\<lparr>Name = ''.text'', Type = SHT_PROGBITS\<rparr>,
                                  \<lparr>Name = ''.note.go.buildid.'', Type = 7\<rparr>],
                      Symbols = Inr [\<lparr>sym_Name = ''main.main''\<rparr>]\<rparr>) = Inr False"
  using IsGoObjFile_iff [of "\<lparr>Sections = [\<lparr>Name = ''.text'', Type = SHT_PROGBITS\<rparr>,
                                  \<lparr>Name = ''.note.go.buildid'', Type = 7\<rparr>],
                      Symbols = Inl ErrNoSymbols\<rparr>"]
    IsGoObjFile_iff [of "\<lparr>Sections = [\<lparr>Name = ''.text'', Type = SHT_PROGBITS\<rparr>,
                                  \<lparr>Name = ''.note.go.buildid.'', Type = 7\<rparr>],
                      Symbols = Inr [\<lparr>sym_Name = ''main.main''\<rparr>]\<rparr>"]
  by simp

text \<open>
  Claim C6. For a file that opens, HasSymbols returns true exactly when some section has
  the type \<^verbatim>\<open>SHT_SYMTAB\<close> or \<^verbatim>\<open>SHT_DYNSYM\<close>, with no error; renaming the sections and
  replacing the symbols changes nothing.
\<close>

theorem HasSymbols_iff:
  "HasSymbols (Inr f) = Inr (\<exists>s\<in>set (Sections f). Type s = SHT_SYMTAB \<or> Type s = SHT_DYNSYM)
   \<and> HasSymbols (Inr (f\<lparr>Sections := map (\<lambda>s. s\<lparr>Name := rename s\<rparr>) (Sections f),
                          Symbols := syms\<rparr>)) = HasSymbols (Inr f)"
  by (simp add: HasSymbols_def HasSymbols_loop_iff)

theorem HasSymbols_iff_witness:
  "HasSymbols (Inr \<lparr>Sections = [\<lparr>Name = ''.text'', Type = SHT_PROGBITS\<rparr>,
                                 \<lparr>Name = ''.dynsym'', Type = SHT_DYNSYM\<rparr>],
                     Symbols = Inl ErrNoSymbols\<rparr>) = Inr True
   \<and> HasSymbols (Inr \<lparr>Sections = [\<lparr>Name = ''.symtab'', Type = SHT_PROGBITS\<rparr>],
                     Symbols = Inl ErrNoSymbols\<rparr>) = Inr False"
  using HasSymbols_iff [of "\<lparr>Sections = [\<lparr>Name = ''.text'', Type = SHT_PROGBITS\<rparr>,
                                 \<lparr>Name = ''.dynsym'', Type = SHT_DYNSYM\<rparr>],
                     Symbols = Inl ErrNoSymbols\<rparr>"]
    HasSymbols_iff [of "\<lparr>Sections = [\<lparr>Name = ''.symtab'', Type = SHT_PROGBITS\<rparr>],
                     Symbols = Inl ErrNoSymbols\<rparr>"]
  by (simp add: SHT_PROGBITS_def SHT_SYMTAB_def SHT_DYNSYM_def)

text \<open>
  Claim C7. For a file that opens and has no sections, HasDWARF, HasSymbols and
  IsGoObjFile return false with no error, and ValidateFile returns an error.
\<close>

theorem no_sections:
  "Sections f = [] \<Longrightarrow>
   HasDWARF (Inr f) = Inr False \<and> HasSymbols (Inr f) = Inr False
   \<and> IsGoObjFile (Inr f) = Inr False \<and> ValidateFile (Inr f) = Some NoSectionsInFile"
  by (simp add: HasDWARF_def readableDWARFSections_def HasSymbols_def IsGoObjFile_def
      ValidateFile_def)

theorem no_sections_witness:
  "Sections \<lparr>Sections = [], Symbols = Inl ErrNoSymbols\<rparr> = []
   \<and> HasDWARF (Inr \<lparr>Sections = [], Symbols = Inl ErrNoSymbols\<rparr>) = Inr False
   \<and> HasSymbols (Inr \<lparr>Sections = [], Symbols = Inl ErrNoSymbols\<rparr>) = Inr False
   \<and> IsGoObjFile (Inr \<lparr>Sections = [], Symbols = Inl ErrNoSymbols\<rparr>) = Inr False
   \<and> ValidateFile (Inr \<lparr>Sections = [], Symbols = Inl ErrNoSymbols\<rparr>) = Some NoSectionsInFile"
  using no_sections [of "\<lparr>Sections = [], Symbols = Inl ErrNoSymbols\<rparr>"]
  by simp

text \<open>
  Claim C2, as amended. For a file that opens and whose symbols can be read whenever no
  section is named \<^verbatim>\<open>.note.go.buildid\<close>, IsSymbolizableGoObjFile has three outcomes:
  false with no error when the file has neither that section nor a symbol named
  \<^verbatim>\<open>runtime.main\<close>, \<^verbatim>\<open>main.main\<close> or \<^verbatim>\<open>runtime.buildVersion\<close>; otherwise true when the first
  section named \<^verbatim>\<open>.gopclntab\<close> has the type \<^verbatim>\<open>SHT_PROGBITS\<close>; otherwise, when no section
  has that name or the first one has another type, the error about \<^verbatim>\<open>.gopclntab\<close>.
\<close>

theorem IsSymbolizableGoObjFile_outcomes:
  assumes "has_buildid_note f \<or> Symbols f = Inr syms"
  shows "IsSymbolizableGoObjFile (Inr f) =
     (if \<not> (has_buildid_note f \<or> has_go_symbol syms) then Inr False
      else case find (\<lambda>s. Name s = ''.gopclntab'') (Sections f) of
             Some sec \<Rightarrow> if Type sec = SHT_PROGBITS then Inr True else Inl NoGopclntab
           | None \<Rightarrow> Inl NoGopclntab)"
proof (cases "has_buildid_note f")
  case True
  then show ?thesis
    by (simp add: IsSymbolizableGoObjFile_def buildid_loop_iff has_buildid_note_def
        gopclntab_check_def File_Section_find)
next
  case False
  with assms have "Symbols f = Inr syms" by simp
  with False show ?thesis
    by (simp add: IsSymbolizableGoObjFile_def buildid_loop_iff has_buildid_note_def
        symbol_loop_iff gopclntab_check_def File_Section_find)
qed

theorem IsSymbolizableGoObjFile_outcomes_witness:
  "IsSymbolizableGoObjFile
     (Inr \<lparr>Sections = [\<lparr>Name = ''.text'', Type = SHT_PROGBITS\<rparr>,
                       \<lparr>Name = ''.symtab'', Type = SHT_SYMTAB\<rparr>],
           Symbols = Inr [\<lparr>sym_Name = ''_start''\<rparr>]\<rparr>) = Inr False
   \<and> IsSymbolizableGoObjFile
     (Inr \<lparr>Sections = [\<lparr>Name = ''.gopclntab'', Type = SHT_PROGBITS\<rparr>,
                       \<lparr>Name = ''.symtab'', Type = SHT_SYMTAB\<rparr>],
           Symbols = Inr [\<lparr>sym_Name = ''main.main''\<rparr>]\<rparr>) = Inr True
   \<and> IsSymbolizableGoObjFile
     (Inr \<lparr>Sections = [\<lparr>Name = ''.note.go.buildid'', Type = 7\<rparr>,
                       \<lparr>Name = ''.gopclntab'', Type = 8\<rparr>],
           Symbols = Inl ErrNoSymbols\<rparr>) = Inl NoGopclntab"
  using IsSymbolizableGoObjFile_outcomes [of "\<lparr>Sections = [\<lparr>Name = ''.text'', Type = SHT_PROGBITS\<rparr>,
                       \<lparr>Name = ''.symtab'', Type = SHT_SYMTAB\<rparr>],
           Symbols = Inr [\<lparr>sym_Name = ''_start''\<rparr>]\<rparr>" "[\<lparr>sym_Name = ''_start''\<rparr>]"]
    IsSymbolizableGoObjFile_outcomes [of "\<lparr>Sections = [\<lparr>Name = ''.gopclntab'', Type = SHT_PROGBITS\<rparr>,
                       \<lparr>Name = ''.symtab'', Type = SHT_SYMTAB\<rparr>],
           Symbols = Inr [\<lparr>sym_Name = ''main.main''\<rparr>]\<rparr>" "[\<lparr>sym_Name = ''main.main''\<rparr>]"]
    IsSymbolizableGoObjFile_outcomes [of "\<lparr>Sections = [\<lparr>Name = ''.note.go.buildid'', Type = 7\<rparr>,
                       \<lparr>Name = ''.gopclntab'', Type = 8\<rparr>],
           Symbols = Inl ErrNoSymbols\<rparr>" "[]"]
  by (simp add: has_buildid_note_def has_go_symbol_def SHT_PROGBITS_def)

text \<open>
  Claim C2 as first stated fails on two files. A file with no \<^verbatim>\<open>.note.go.buildid\<close> section
  and no symbol table has none of the marks, and gets the error of the symbol read, not
  false. A file with the note and two sections named \<^verbatim>\<open>.gopclntab\<close>, the second of type
  \<^verbatim>\<open>SHT_PROGBITS\<close>, the first not, gets the error, not true.
\<close>

theorem IsSymbolizableGoObjFile_counterexample:
  "IsSymbolizableGoObjFile
     (Inr \<lparr>Sections = [\<lparr>Name = ''.text'', Type = SHT_PROGBITS\<rparr>],
           Symbols = Inl ErrNoSymbols\<rparr>) = Inl (FailedToReadSymbols ErrNoSymbols)
   \<and> IsSymbolizableGoObjFile
     (Inr \<lparr>Sections = [\<lparr>Name = ''.note.go.buildid'', Type = 7\<rparr>,
                       \<lparr>Name = ''.gopclntab'', Type = 8\<rparr>,
                       \<lparr>Name = ''.gopclntab'', Type = SHT_PROGBITS\<rparr>],
           Symbols = Inl ErrNoSymbols\<rparr>) = Inl NoGopclntab"
  by (simp add: IsSymbolizableGoObjFile_def gopclntab_check_def SHT_PROGBITS_def)

text \<open>
  Claim C10. For a file that opens, has no section named \<^verbatim>\<open>.note.go.buildid\<close> and whose
  symbols cannot be read, IsSymbolizableGoObjFile returns the error of the symbol read,
  not false. When the section is present, the result does not depend on what
  \<^verbatim>\<open>f.Symbols()\<close> would return, and is never that error.
\<close>

theorem unreadable_symbols:
  "(\<not> has_buildid_note f \<and> Symbols f = Inl err \<longrightarrow>
      IsSymbolizableGoObjFile (Inr f) = Inl (FailedToReadSymbols err))
   \<and> (has_buildid_note f \<longrightarrow>
      IsSymbolizableGoObjFile (Inr (f\<lparr>Symbols := syms\<rparr>)) = IsSymbolizableGoObjFile (Inr f)
      \<and> IsSymbolizableGoObjFile (Inr f) \<noteq> Inl (FailedToReadSymbols err))"
  by (auto simp: IsSymbolizableGoObjFile_def buildid_loop_iff has_buildid_note_def
      gopclntab_check_def split: option.splits)

theorem unreadable_symbols_witness:
  "IsSymbolizableGoObjFile
     (Inr \<lparr>Sections = [\<lparr>Name = ''.text'', Type = SHT_PROGBITS\<rparr>,
                       \<lparr>Name = ''.gopclntab'', Type = SHT_PROGBITS\<rparr>],
           Symbols = Inl ErrNoSymbols\<rparr>) = Inl (FailedToReadSymbols ErrNoSymbols)
   \<and> IsSymbolizableGoObjFile
     (Inr \<lparr>Sections = [\<lparr>Name = ''.note.go.buildid'', Type = 7\<rparr>,
                       \<lparr>Name = ''.gopclntab'', Type = SHT_PROGBITS\<rparr>],
           Symbols = Inl ErrNoSymbols\<rparr>) \<noteq> Inl (FailedToReadSymbols ErrNoSymbols)"
  using unreadable_symbols [of "\<lparr>Sections = [\<lparr>Name = ''.text'', Type = SHT_PROGBITS\<rparr>,
                       \<lparr>Name = ''.gopclntab'', Type = SHT_PROGBITS\<rparr>],
           Symbols = Inl ErrNoSymbols\<rparr>" ErrNoSymbols]
    unreadable_symbols [of "\<lparr>Sections = [\<lparr>Name = ''.note.go.buildid'', Type = 7\<rparr>,
                       \<lparr>Name = ''.gopclntab'', Type = SHT_PROGBITS\<rparr>],
           Symbols = Inl ErrNoSymbols\<rparr>" ErrNoSymbols]
  by (simp add: has_buildid_note_def)

section \<open>The header validator\<close>

text \<open>
  Claim C9, as amended. ValidateHeader is a function of what the stream delivers: two
  streams that deliver the same first 64 bytes and report the same read error, or none,
  before the 64th byte or together with it, get the same verdict and the same error.
  Nothing after the 64th byte matters.
\<close>

theorem ValidateHeader_prefix:
  assumes "take 64 (content r1) = take 64 (content r2)"
    and "failure_upto r1 64 = failure_upto r2 64"
  shows "ValidateHeader r1 = ValidateHeader r2"
proof -
  have "ReadAll (LimitReader r1 64) = ReadAll (LimitReader r2 64)"
    using assms
    by (simp add: ReadAll_def failure_LimitReader content_LimitReader split: option.splits)
  then show ?thesis by (simp add: ValidateHeader_def)
qed

theorem ValidateHeader_prefix_witness:
  "ValidateHeader
     \<lparr>content = replicate 64 0x41 @ [1, 2, 3], failure = Some ''reset'', same_call = True\<rparr> =
   ValidateHeader \<lparr>content = replicate 64 0x41, failure = None, same_call = False\<rparr>"
  using ValidateHeader_prefix
    [of "\<lparr>content = replicate 64 0x41 @ [1, 2, 3], failure = Some ''reset'', same_call = True\<rparr>"
      "\<lparr>content = replicate 64 0x41, failure = None, same_call = False\<rparr>"]
  by (simp add: failure_upto_def)

text \<open>
  Claim C9 as first stated, the same verdict for streams with identical bytes, fails on
  the one-byte stream \<^verbatim>\<open>A\<close>: when the reader ends with \<^verbatim>\<open>io.EOF\<close> the verdict is the error of
  the magic number, when it ends with an error of its own \<^verbatim>\<open>io.ReadAll\<close> returns that
  error and ValidateHeader passes it on.
\<close>

theorem ValidateHeader_prefix_counterexample:
  "ValidateHeader \<lparr>content = [0x41], failure = None, same_call = False\<rparr> \<noteq>
   ValidateHeader \<lparr>content = [0x41], failure = Some ''boom'', same_call = False\<rparr>"
  by code_simp

text \<open>
  Claim C8. For a stream whose first 16 bytes are a valid identification header and that
  is shorter than the header of its class (52 bytes for \<^verbatim>\<open>ELFCLASS32\<close>, 64 for
  \<^verbatim>\<open>ELFCLASS64\<close>), ValidateHeader returns a read error, never nil: the reader's own error
  when it failed, \<^verbatim>\<open>io.ErrUnexpectedEOF\<close> otherwise.
\<close>

theorem ValidateHeader_truncated:
  assumes "16 \<le> length (content r)" and "ident_ok (content r)"
    and "length (content r) < (if content r ! 4 = ELFCLASS32 then 52 else 64)"
  shows "ValidateHeader r =
     Some (ReadError (case failure r of None \<Rightarrow> ErrUnexpectedEOF | Some msg \<Rightarrow> ReaderError msg))"
proof -
  let ?b = "content r"
  have lt: "length ?b < 64" using assms(3) by (simp split: if_splits)
  have ne: "?b \<noteq> []" using assms(1) by auto
  have ok: "ident_ok (take 16 ?b)" using assms(2) by (simp add: ident_ok_def)
  have c: "take 16 ?b ! 4 = ?b ! 4" by simp
  have cls: "?b ! 4 = ELFCLASS32 \<or> ?b ! 4 = ELFCLASS64"
    using assms(2) by (auto simp: ident_ok_def)
  have rh: "read_header (?b ! 4) bo 1 ?b = Inl (ReadError ErrUnexpectedEOF)" for bo
    using cls assms(3) ne lt
    by (auto simp: read_header_def ReadFull_def ELFCLASS32_def ELFCLASS64_def)
  show ?thesis
  proof (cases "failure r")
    case None
    then show ?thesis
      unfolding ValidateHeader_unfold using lt ne assms(1) ok
      by (simp add: failure_upto_short ident_of_long' check_ident_ok rh)
  next
    case (Some msg)
    then show ?thesis unfolding ValidateHeader_unfold using lt by (simp add: failure_upto_short)
  qed
qed

theorem ValidateHeader_truncated_witness:
  "ValidateHeader \<lparr>content = [0x7f, 0x45, 0x4c, 0x46, 2, 1, 1] @ replicate 56 0, failure = None, same_call = False\<rparr>
     = Some (ReadError ErrUnexpectedEOF)
   \<and> ValidateHeader \<lparr>content = [0x7f, 0x45, 0x4c, 0x46, 1, 2, 1] @ replicate 9 0, failure = None, same_call = False\<rparr>
     = Some (ReadError ErrUnexpectedEOF)"
proof -
  let ?r = "\<lparr>content = [0x7f, 0x45, 0x4c, 0x46, 2, 1, 1] @ replicate 56 0, failure = None, same_call = False\<rparr>"
  let ?s = "\<lparr>content = [0x7f, 0x45, 0x4c, 0x46, 1, 2, 1] @ replicate 9 0, failure = None, same_call = False\<rparr>"
  have "ValidateHeader ?r = Some (ReadError ErrUnexpectedEOF)"
    using ValidateHeader_truncated [of ?r]
    by (simp add: ident_ok_def ELFCLASS32_def ELFCLASS64_def ELFDATA2LSB_def ELFDATA2MSB_def)
  moreover have "ValidateHeader ?s = Some (ReadError ErrUnexpectedEOF)"
    using ValidateHeader_truncated [of ?s]
    by (simp add: ident_ok_def ELFCLASS32_def ELFCLASS64_def ELFDATA2LSB_def ELFDATA2MSB_def)
  ultimately show ?thesis by simp
qed



text \<open>
  What the code does with a stream shorter than 16 bytes. It never returns nil. The error
  is a read error when the stream is empty, when its reader failed, or when its first
  seven bytes are a valid identification; in every other case \<^verbatim>\<open>buf.Read\<close> has filled only
  the start of the zeroed array \<^verbatim>\<open>ident\<close> and returned no error, and the field checks
  answer with a format error.
\<close>

lemma ValidateHeader_short_streams:
  "(length (content r) < 16 \<longrightarrow>
      (\<exists>e. ValidateHeader r = Some e \<and> (is_read_error e \<or> is_format_error e)
         \<and> is_read_error e =
             (content r = [] \<or> failure r \<noteq> None
              \<or> (7 \<le> length (content r) \<and> ident_ok (content r)))))
   \<and> (length (content r) = 64 \<and> failure_upto r 64 = None
        \<and> take 4 (content r) \<noteq> [0x7f, 0x45, 0x4c, 0x46] \<longrightarrow>
      ValidateHeader r = Some (InvalidMagic (take 4 (content r))))"
proof (intro conjI impI)
  assume short: "length (content r) < 16"
  let ?c = "content r"
  have fu: "failure_upto r 64 = failure r" using short by (simp add: failure_upto_short)
  let ?P = "\<lambda>e. ValidateHeader r = Some e \<and> (is_read_error e \<or> is_format_error e)
         \<and> is_read_error e =
             (?c = [] \<or> failure r \<noteq> None \<or> (7 \<le> length ?c \<and> ident_ok ?c))"
  consider (fails) "failure r \<noteq> None" | (empty) "failure r = None" "?c = []"
    | (bad) "failure r = None" "?c \<noteq> []" "\<not> ident_ok (pad_ident ?c)"
    | (good) "failure r = None" "?c \<noteq> []" "ident_ok (pad_ident ?c)"
    by blast
  then show "\<exists>e. ?P e"
  proof cases
    case fails
    with short have "?P (ReadError (ReaderError (the (failure r))))"
      by (simp add: ValidateHeader_unfold fu)
    then show ?thesis ..
  next
    case empty
    then have "?P (ReadError EOF)" by (simp add: ValidateHeader_unfold fu)
    then show ?thesis ..
  next
    case bad
    from check_ident_bad [OF bad(3)] obtain e
      where e: "check_ident (pad_ident ?c) ?c = Some e" "is_format_error e" "\<not> is_read_error e"
      by blast
    have "ValidateHeader r = Some e"
      using bad(1,2) short e(1) by (simp add: ValidateHeader_unfold fu)
    with e(2,3) bad pad_ident_ok [OF short] have "?P e" by simp
    then show ?thesis ..
  next
    case good
    have cls: "pad_ident ?c ! 4 = ELFCLASS32 \<or> pad_ident ?c ! 4 = ELFCLASS64"
      using good(3) by (auto simp: ident_ok_def)
    have rh: "read_header (pad_ident ?c ! 4) bo 1 ?c = Inl (ReadError ErrUnexpectedEOF)" for bo
      using cls short good(2)
      by (auto simp: read_header_def ReadFull_def ELFCLASS32_def ELFCLASS64_def)
    have "length (pad_ident ?c) = 16" using short by (simp add: pad_ident_def)
    then have "check_ident (pad_ident ?c) ?c = Some (ReadError ErrUnexpectedEOF)"
      using good(3) by (simp add: check_ident_ok rh)
    then have "ValidateHeader r = Some (ReadError ErrUnexpectedEOF)"
      using good(1,2) short by (simp add: ValidateHeader_unfold fu)
    with good pad_ident_ok [OF short] have "?P (ReadError ErrUnexpectedEOF)" by simp
    then show ?thesis ..
  qed
next
  assume a: "length (content r) = 64 \<and> failure_upto r 64 = None
        \<and> take 4 (content r) \<noteq> [0x7f, 0x45, 0x4c, 0x46]"
  let ?c = "content r"
  have t4: "take 4 ?c = [?c ! 0, ?c ! 1, ?c ! 2, ?c ! 3]"
    using a by (intro take_4_nth) simp
  with a have m: "?c ! 0 \<noteq> 0x7f \<or> ?c ! 1 \<noteq> 0x45 \<or> ?c ! 2 \<noteq> 0x4c \<or> ?c ! 3 \<noteq> 0x46"
    by auto
  have "check_ident (take 16 ?c) ?c = Some (InvalidMagic (take 4 ?c))"
    using m by (simp add: check_ident_def slice_def)
  moreover have "?c \<noteq> []" using a by auto
  ultimately show "ValidateHeader r = Some (InvalidMagic (take 4 (content r)))"
    using a by (simp add: ValidateHeader_unfold ident_of_long')
qed

text \<open>
  Claim C4. A stream shorter than 16 bytes is to get a read error, and a 64-byte stream
  whose first four bytes are not the magic a format error that names those bytes. The
  second half holds (the conjunct on 64 bytes of \<open>ValidateHeader_short_streams\<close>). The
  first half fails in the code: \<^verbatim>\<open>buf.Read(ident[:])\<close> returns the count of bytes read and
  an error only when the buffer is empty, and the code tests the error and drops the
  count. The one-byte stream \<^verbatim>\<open>A\<close> gets the error of the magic number, with three zero
  bytes in its message that were never in the stream, while the empty stream and a
  stream of seven valid bytes get the read errors \<^verbatim>\<open>io.EOF\<close> and \<^verbatim>\<open>io.ErrUnexpectedEOF\<close>.
\<close>

theorem ValidateHeader_short_stream_format_error:
  "ValidateHeader \<lparr>content = [0x41], failure = None, same_call = False\<rparr> =
     Some (InvalidMagic [0x41, 0, 0, 0])
   \<and> \<not> is_read_error (InvalidMagic [0x41, 0, 0, 0])
   \<and> magic_message [0x41, 0, 0, 0] = ''invalid magic number, A'' @ [CHR 0x00, CHR 0x00, CHR 0x00]
   \<and> ValidateHeader \<lparr>content = [], failure = None, same_call = False\<rparr> = Some (ReadError EOF)
   \<and> ValidateHeader
       \<lparr>content = [0x7f, 0x45, 0x4c, 0x46, 2, 1, 1], failure = None, same_call = False\<rparr> =
     Some (ReadError ErrUnexpectedEOF)"
  by code_simp

end
